theory Spec2Isabelle
  imports Main "HOL-Library.Sublist" "HOL-Library.Multiset"
begin

section \<open>Python values used by the converter\<close>

text \<open>
  Strings are lists of characters, one \<open>char\<close> per code point below 256.
  The exception classes of \<^verbatim>\<open>src/utils/exceptions.py\<close> are the first four
  constructors; every other Python exception (ValueError, IndexError, TypeError, an
  error of an external library) is \<open>PyException\<close>. Each carries the text that
  \<^verbatim>\<open>str(e)\<close> gives; the texts of built-in exceptions are those of CPython 3.11.
\<close>

datatype error =
    PDFReadError string
  | OCRError string
  | ConversionError string
  | ValidationError string
  | PyException string

fun str_error :: "error \<Rightarrow> string" where
  "str_error (PDFReadError m) = m"
| "str_error (OCRError m) = m"
| "str_error (ConversionError m) = m"
| "str_error (ValidationError m) = m"
| "str_error (PyException m) = m"

text \<open>\<^verbatim>\<open>sep.join(xs)\<close>\<close>

fun py_join :: "string \<Rightarrow> string list \<Rightarrow> string" where
  "py_join sep [] = []"
| "py_join sep [x] = x"
| "py_join sep (x # y # ys) = x @ sep @ py_join sep (y # ys)"

text \<open>
  \<^verbatim>\<open>str.isspace\<close> on one character: the code points 9..13, 28..32, 0x85 and 0xA0
  are the white space below 256.
\<close>

definition py_isspace :: "char \<Rightarrow> bool" where
  "py_isspace c =
     (let n = (of_char c :: nat)
      in (9 \<le> n \<and> n \<le> 13) \<or> (28 \<le> n \<and> n \<le> 32) \<or> n = 133 \<or> n = 160)"

text \<open>\<^verbatim>\<open>s.strip()\<close>: white space removed at both ends.\<close>

definition py_strip :: "string \<Rightarrow> string" where
  "py_strip s = rev (dropWhile py_isspace (rev (dropWhile py_isspace s)))"

section \<open>Confidence filtering (\<^verbatim>\<open>TextExtractorImpl._filter_text_by_confidence\<close>)\<close>

text \<open>
  The OCR engine's output dictionary: the column \<^verbatim>\<open>text\<close> of words (\<open>td_text\<close>) and the
  column \<^verbatim>\<open>conf\<close> of confidences (\<open>td_conf\<close>). The code reads a confidence through \<^verbatim>\<open>int(...)\<close>;
  a cell of \<open>td_conf\<close> is what \<^verbatim>\<open>int\<close> makes of it: the integer, or the exception it
  raises on a cell that is no integer.
\<close>

record text_data =
  td_text :: "string list"
  td_conf :: "(error + int) list"

text \<open>
  The loop \<^verbatim>\<open>for i, word in enumerate(text_data['text'])\<close>, with the index \<open>i\<close> and
  the list \<open>filtered_words\<close> built so far. Reading \<^verbatim>\<open>text_data['conf'][i]\<close> beyond
  the end of the column raises IndexError.
\<close>

fun filter_loop :: "int \<Rightarrow> (error + int) list \<Rightarrow> nat \<Rightarrow> string list \<Rightarrow> string list
    \<Rightarrow> error + string list" where
  "filter_loop confidence_threshold cs i [] filtered_words = Inr filtered_words"
| "filter_loop confidence_threshold cs i (word # rest) filtered_words =
     (if i < length cs then
        (case cs ! i of
           Inl e \<Rightarrow> Inl e
         | Inr confidence \<Rightarrow>
             if confidence \<ge> confidence_threshold \<and> py_strip word \<noteq> []
             then filter_loop confidence_threshold cs (Suc i) rest (filtered_words @ [word])
             else filter_loop confidence_threshold cs (Suc i) rest filtered_words)
      else Inl (PyException ''list index out of range''))"

definition filtered_words :: "int \<Rightarrow> text_data \<Rightarrow> error + string list" where
  "filtered_words confidence_threshold td =
     filter_loop confidence_threshold (td_conf td) 0 (td_text td) []"

definition filter_text_by_confidence :: "int \<Rightarrow> text_data \<Rightarrow> error + string" where
  "filter_text_by_confidence confidence_threshold td =
     (case filtered_words confidence_threshold td of
        Inl e \<Rightarrow> Inl e
      | Inr ws \<Rightarrow> Inr (py_join '' '' ws))"

text \<open>
  The OCR output that a sequence of (word, confidence) pairs stands for, and the page
  text as the specification words it: the words whose confidence is at least the
  threshold and whose trimmed text is not empty, in their order, joined by single spaces.
\<close>

definition text_data_of :: "(string \<times> int) list \<Rightarrow> text_data" where
  "text_data_of ws = \<lparr>td_text = map fst ws, td_conf = map (\<lambda>p. Inr (snd p)) ws\<rparr>"

definition retained :: "int \<Rightarrow> (string \<times> int) list \<Rightarrow> string list" where
  "retained t ws = map fst (filter (\<lambda>p. snd p \<ge> t \<and> py_strip (fst p) \<noteq> []) ws)"

definition spec_page_text :: "int \<Rightarrow> (string \<times> int) list \<Rightarrow> string" where
  "spec_page_text t ws = py_join '' '' (retained t ws)"

section \<open>Decimal text of integers\<close>

text \<open>\<^verbatim>\<open>str(n)\<close> of a Python integer, and the \<^verbatim>\<open>repr\<close> of a list of integers
  as an f-string prints it: \<^verbatim>\<open>[5, 0]\<close>.\<close>

definition digit_char :: "nat \<Rightarrow> char" where
  "digit_char d = ''0123456789'' ! d"

fun str_nat :: "nat \<Rightarrow> string" where
  "str_nat n = (if n < 10 then [digit_char n] else str_nat (n div 10) @ [digit_char (n mod 10)])"

declare str_nat.simps [simp del]

definition str_int :: "int \<Rightarrow> string" where
  "str_int i = (if i < 0 then CHR ''-'' # str_nat (nat (- i)) else str_nat (nat i))"

definition repr_int_list :: "int list \<Rightarrow> string" where
  "repr_int_list xs = ''['' @ py_join '', '' (map str_int xs) @ '']''"

section \<open>The PDF file on disk (\<^verbatim>\<open>PDFProcessorImpl\<close>)\<close>

text \<open>
  What the code observes of a path: its text, whether it exists, its suffix, what
  opening it and counting \<^verbatim>\<open>PdfReader(file).pages\<close> gives (the message of the
  exception raised, or the number of pages), and what opening and reading it gives (the
  message of the exception, or the bytes).
\<close>

record pdf_file =
  path :: string
  file_exists :: bool
  file_suffix :: string
  reader_pages :: "string + nat"
  read_bytes :: "string + string"

text \<open>\<^verbatim>\<open>str.lower\<close> on one character (code points below 256).\<close>

definition py_lower_char :: "char \<Rightarrow> char" where
  "py_lower_char c =
     (let n = (of_char c :: nat)
      in if (65 \<le> n \<and> n \<le> 90) \<or> (192 \<le> n \<and> n \<le> 214) \<or> (216 \<le> n \<and> n \<le> 222)
         then char_of (n + 32) else c)"

text \<open>\<^verbatim>\<open>isinstance(e, (PDFReadError, ValidationError))\<close> and
  \<^verbatim>\<open>isinstance(e, PDFReadError)\<close>.\<close>

fun is_read_or_validation_error :: "error \<Rightarrow> bool" where
  "is_read_or_validation_error (PDFReadError m) = True"
| "is_read_or_validation_error (ValidationError m) = True"
| "is_read_or_validation_error e = False"

fun is_read_error :: "error \<Rightarrow> bool" where
  "is_read_error (PDFReadError m) = True"
| "is_read_error e = False"

definition validate_file :: "pdf_file \<Rightarrow> error + bool" where
  "validate_file f =
     (case
        (if \<not> file_exists f then Inl (PDFReadError (''File does not exist: '' @ path f))
         else if \<not> map py_lower_char (file_suffix f) = ''.pdf''
           then Inl (ValidationError (''File is not a PDF: '' @ path f))
         else (case reader_pages f of
                 Inl m \<Rightarrow> Inl (PyException m)
               | Inr n \<Rightarrow> if n = 0 then Inl (PDFReadError ''PDF file contains no pages'')
                          else Inr True))
      of Inl e \<Rightarrow> if is_read_or_validation_error e then Inl e
                  else Inl (PDFReadError (''Invalid PDF file: '' @ str_error e))
       | Inr b \<Rightarrow> Inr b)"

definition get_page_count :: "pdf_file \<Rightarrow> error + int" where
  "get_page_count f =
     (case
        (case validate_file f of
           Inl e \<Rightarrow> Inl e
         | Inr b \<Rightarrow> (case reader_pages f of
                       Inl m \<Rightarrow> Inl (PyException m)
                     | Inr page_count \<Rightarrow> Inr (int page_count)))
      of Inl e \<Rightarrow> if is_read_error e then Inl e
                  else Inl (PDFReadError (''Cannot read PDF file: '' @ str_error e))
       | Inr page_count \<Rightarrow> Inr page_count)"

section \<open>Page-range resolution\<close>

text \<open>
  The block ``Determine pages to process'' that \<^verbatim>\<open>TextExtractorImpl.extract_text\<close>
  and \<^verbatim>\<open>TableExtractorImpl.extract_tables\<close> both contain, word for word, written
  once and called by both:
  \<^verbatim>\<open>None\<close> is every page; otherwise the entries outside \<open>[1, total_pages]\<close> are
  collected and, when there are any, reported together; otherwise the selection is sorted.
\<close>

definition resolve_pages :: "int \<Rightarrow> int list option \<Rightarrow> error + int list" where
  "resolve_pages total_pages pages =
     (case pages of
        None \<Rightarrow> Inr [1..total_pages]
      | Some ps \<Rightarrow>
          (let invalid_pages = filter (\<lambda>p. p < 1 \<or> p > total_pages) ps
           in if invalid_pages \<noteq> []
              then Inl (ValidationError (''Invalid page numbers: '' @ repr_int_list invalid_pages))
              else Inr (sort ps)))"

section \<open>Rendering pages (\<^verbatim>\<open>TextExtractorImpl._convert_pdf_to_images\<close>)\<close>

text \<open>\<^verbatim>\<open>min(pages)\<close> and \<^verbatim>\<open>max(pages)\<close>, which raise ValueError on the empty list.\<close>

fun py_min :: "int list \<Rightarrow> error + int" where
  "py_min [] = Inl (PyException ''min() arg is an empty sequence'')"
| "py_min (x # xs) = Inr (fold min xs x)"

fun py_max :: "int list \<Rightarrow> error + int" where
  "py_max [] = Inl (PyException ''max() arg is an empty sequence'')"
| "py_max (x # xs) = Inr (fold max xs x)"

text \<open>
  The renderer \<^verbatim>\<open>pdf2image.convert_from_bytes(pdf_bytes, first_page, last_page, dpi=300)\<close>
  is a parameter: from the bytes and the two page numbers it gives the message of the
  exception it raises, or the list of images.
\<close>

type_synonym 'img renderer = "string \<Rightarrow> int \<Rightarrow> int \<Rightarrow> string + 'img list"

definition convert_pdf_to_images :: "'img renderer \<Rightarrow> pdf_file \<Rightarrow> int list \<Rightarrow> error + 'img list" where
  "convert_pdf_to_images convert_from_bytes f pages =
     (case
        (case read_bytes f of
           Inl m \<Rightarrow> Inl (PyException m)
         | Inr pdf_bytes \<Rightarrow>
             if length pages = 1 then
               (case convert_from_bytes pdf_bytes (hd pages) (hd pages) of
                  Inl m \<Rightarrow> Inl (PyException m)
                | Inr images \<Rightarrow> Inr images)
             else
               (case py_min pages of
                  Inl e \<Rightarrow> Inl e
                | Inr first_page \<Rightarrow>
               (case py_max pages of
                  Inl e \<Rightarrow> Inl e
                | Inr last_page \<Rightarrow>
               (case convert_from_bytes pdf_bytes first_page last_page of
                  Inl m \<Rightarrow> Inl (PyException m)
                | Inr images \<Rightarrow>
                    if set pages \<noteq> set [first_page..last_page] then
                      (let page_indices = map (\<lambda>p. p - first_page) pages
                       in Inr (map (\<lambda>i. images ! nat i)
                                 (filter (\<lambda>i. i < int (length images)) page_indices)))
                    else Inr images))))
      of Inl e \<Rightarrow> Inl (OCRError (''Failed to convert PDF to images: '' @ str_error e))
       | Inr images \<Rightarrow> Inr images)"

section \<open>Text extraction (\<^verbatim>\<open>TextExtractorImpl.extract_text\<close>)\<close>

text \<open>
  The OCR engine \<^verbatim>\<open>pytesseract.image_to_data(image, lang, config, output_type=DICT)\<close>
  is a parameter: the message of the exception it raises, or the output dictionary.
\<close>

type_synonym 'img ocr_engine = "'img \<Rightarrow> string \<Rightarrow> string \<Rightarrow> string + text_data"

text \<open>The body of the \<^verbatim>\<open>try\<close> inside the loop, for the image \<open>img\<close> at index \<open>i\<close>.\<close>

definition recognize_page ::
    "'img ocr_engine \<Rightarrow> int \<Rightarrow> int list \<Rightarrow> string \<Rightarrow> nat \<Rightarrow> 'img \<Rightarrow> error + string" where
  "recognize_page image_to_data confidence_threshold pages_to_process language i img =
     (if i < length pages_to_process then
        (let custom_config = ''--oem 3 --psm 6 -l '' @ language
         in case image_to_data img language custom_config of
              Inl m \<Rightarrow> Inl (PyException m)
            | Inr td \<Rightarrow> filter_text_by_confidence confidence_threshold td)
      else Inl (PyException ''list index out of range''))"

text \<open>
  The loop \<^verbatim>\<open>for i, image in enumerate(images)\<close>. An exception of the body is caught
  and the page's text is the empty string. The handler logs \<^verbatim>\<open>page_num\<close>, which is
  bound by the first statement of the body at index 0 unless \<open>pages_to_process\<close> is
  empty; then the handler itself raises UnboundLocalError, which leaves the loop.
\<close>

fun ocr_loop ::
    "'img ocr_engine \<Rightarrow> int \<Rightarrow> int list \<Rightarrow> string \<Rightarrow> nat \<Rightarrow> 'img list \<Rightarrow> string list
     \<Rightarrow> error + string list" where
  "ocr_loop image_to_data thr pages_to_process language i [] extracted_texts =
     Inr extracted_texts"
| "ocr_loop image_to_data thr pages_to_process language i (img # rest) extracted_texts =
     (case recognize_page image_to_data thr pages_to_process language i img of
        Inr filtered_text \<Rightarrow>
          ocr_loop image_to_data thr pages_to_process language (Suc i) rest
            (extracted_texts @ [filtered_text])
      | Inl e \<Rightarrow>
          if pages_to_process = [] then
            Inl (PyException
              ''cannot access local variable 'page_num' where it is not associated with a value'')
          else ocr_loop image_to_data thr pages_to_process language (Suc i) rest
                 (extracted_texts @ [[]]))"

definition extract_text ::
    "'img renderer \<Rightarrow> 'img ocr_engine \<Rightarrow> int \<Rightarrow> pdf_file \<Rightarrow> int list option \<Rightarrow> string
     \<Rightarrow> error + string list" where
  "extract_text convert_from_bytes image_to_data confidence_threshold f pages language =
     (case
        (case validate_file f of
           Inl e \<Rightarrow> Inl e
         | Inr b \<Rightarrow>
        (case get_page_count f of
           Inl e \<Rightarrow> Inl e
         | Inr total_pages \<Rightarrow>
        (case resolve_pages total_pages pages of
           Inl e \<Rightarrow> Inl e
         | Inr pages_to_process \<Rightarrow>
        (case convert_pdf_to_images convert_from_bytes f pages_to_process of
           Inl e \<Rightarrow> Inl e
         | Inr images \<Rightarrow>
             ocr_loop image_to_data confidence_threshold pages_to_process language 0 images []))))
      of Inl e \<Rightarrow> if is_read_or_validation_error e then Inl e
                  else Inl (OCRError (''OCR processing failed: '' @ str_error e))
       | Inr extracted_texts \<Rightarrow> Inr extracted_texts)"

section \<open>Language codes (\<^verbatim>\<open>TableExtractorImpl._convert_language_code\<close>)\<close>

text \<open>The dictionary \<^verbatim>\<open>language_mapping\<close>, and \<^verbatim>\<open>language_mapping.get(language, 'en')\<close>.\<close>

definition language_mapping :: "(string \<times> string) list" where
  "language_mapping =
     [(''eng'', ''en''), (''fra'', ''fr''), (''deu'', ''de''), (''spa'', ''es''),
      (''ita'', ''it''), (''por'', ''pt''), (''rus'', ''ru''), (''jpn'', ''ja''),
      (''kor'', ''ko''), (''chi_sim'', ''ch''), (''chi_tra'', ''ch'')]"

definition convert_language_code :: "string \<Rightarrow> string" where
  "convert_language_code language =
     (case map_of language_mapping language of None \<Rightarrow> ''en'' | Some code \<Rightarrow> code)"

section \<open>Byte streams (\<^verbatim>\<open>io.BytesIO\<close>)\<close>

text \<open>
  A stream is its bytes, its read position and whether it has been closed. Every
  operation on a closed stream raises ValueError. An operation gives its result and the
  stream after it.
\<close>

record bytes_io =
  buffer :: string
  pos :: nat
  closed :: bool

definition closed_file :: error where
  "closed_file = PyException ''I/O operation on closed file.''"

definition tell :: "bytes_io \<Rightarrow> (error + nat) \<times> bytes_io" where
  "tell file = (if closed file then (Inl closed_file, file) else (Inr (pos file), file))"

text \<open>\<^verbatim>\<open>file.seek(offset)\<close>, from the start of the stream.\<close>

definition seek_set :: "bytes_io \<Rightarrow> nat \<Rightarrow> (error + nat) \<times> bytes_io" where
  "seek_set file offset =
     (if closed file then (Inl closed_file, file)
      else (Inr offset, file\<lparr>pos := offset\<rparr>))"

text \<open>\<^verbatim>\<open>file.seek(0, 2)\<close>: to the end of the stream.\<close>

definition seek_end :: "bytes_io \<Rightarrow> (error + nat) \<times> bytes_io" where
  "seek_end file =
     (if closed file then (Inl closed_file, file)
      else (Inr (length (buffer file)), file\<lparr>pos := length (buffer file)\<rparr>))"

text \<open>\<^verbatim>\<open>file.read(n)\<close>: at most \<open>n\<close> bytes from the position, which moves past them.\<close>

definition read :: "bytes_io \<Rightarrow> nat \<Rightarrow> (error + string) \<times> bytes_io" where
  "read file n =
     (if closed file then (Inl closed_file, file)
      else (let bs = take n (drop (pos file) (buffer file))
            in (Inr bs, file\<lparr>pos := pos file + length bs\<rparr>)))"

section \<open>File validation (\<^verbatim>\<open>FileValidatorImpl\<close>)\<close>

fun is_validation_error :: "error \<Rightarrow> bool" where
  "is_validation_error (ValidationError m) = True"
| "is_validation_error e = False"

text \<open>The handler \<^verbatim>\<open>except Exception as e\<close> of both probes, with its prefix.\<close>

definition reraise_validation :: "string \<Rightarrow> error \<Rightarrow> error" where
  "reraise_validation prefix_text e =
     (if is_validation_error e then e else ValidationError (prefix_text @ str_error e))"

definition validate_file_type :: "bytes_io \<Rightarrow> (error + bool) \<times> bytes_io" where
  "validate_file_type file =
     (let wrap = reraise_validation ''Cannot validate file type: ''
      in case tell file of
           (Inl e, file1) \<Rightarrow> (Inl (wrap e), file1)
         | (Inr current_pos, file1) \<Rightarrow>
        (case seek_set file1 0 of
           (Inl e, file2) \<Rightarrow> (Inl (wrap e), file2)
         | (Inr p0, file2) \<Rightarrow>
        (case read file2 8 of
           (Inl e, file3) \<Rightarrow> (Inl (wrap e), file3)
         | (Inr header, file3) \<Rightarrow>
        (case seek_set file3 current_pos of
           (Inl e, file4) \<Rightarrow> (Inl (wrap e), file4)
         | (Inr p1, file4) \<Rightarrow>
             if prefix ''%PDF-'' header then (Inr True, file4)
             else (Inl (wrap (ValidationError ''File is not a valid PDF'')), file4)))))"

text \<open>
  \<^verbatim>\<open>f"{file_size_mb:.2f}"\<close> for \<open>file_size_mb = file_size / (1024 * 1024)\<close>: the
  quotient has no rounding error for a size below \<open>2^53\<close>, and the format rounds it
  to hundredths, ties to even.
\<close>

definition format_mb :: "nat \<Rightarrow> string" where
  "format_mb file_size =
     (let n = file_size * 100;
          q = n div 1048576;
          r = n mod 1048576;
          h = (if r > 524288 \<or> (r = 524288 \<and> odd q) then q + 1 else q)
      in str_nat (h div 100) @ ''.'' @ [digit_char (h mod 100 div 10), digit_char (h mod 10)])"

text \<open>
  The comparison \<^verbatim>\<open>file_size_mb > max_size_mb\<close> of that quotient with an integer
  is the comparison of \<open>file_size\<close> with \<open>max_size_mb * 1048576\<close>.
\<close>

definition validate_file_size :: "bytes_io \<Rightarrow> int \<Rightarrow> (error + bool) \<times> bytes_io" where
  "validate_file_size file max_size_mb =
     (let wrap = reraise_validation ''Cannot validate file size: ''
      in case tell file of
           (Inl e, file1) \<Rightarrow> (Inl (wrap e), file1)
         | (Inr current_pos, file1) \<Rightarrow>
        (case seek_end file1 of
           (Inl e, file2) \<Rightarrow> (Inl (wrap e), file2)
         | (Inr p0, file2) \<Rightarrow>
        (case tell file2 of
           (Inl e, file3) \<Rightarrow> (Inl (wrap e), file3)
         | (Inr file_size, file3) \<Rightarrow>
        (case seek_set file3 current_pos of
           (Inl e, file4) \<Rightarrow> (Inl (wrap e), file4)
         | (Inr p1, file4) \<Rightarrow>
             if int file_size > max_size_mb * 1048576 then
               (Inl (wrap (ValidationError
                  (''File size ('' @ format_mb file_size
                     @ '' MB) exceeds maximum allowed size ('' @ str_int max_size_mb
                     @ '' MB)''))), file4)
             else (Inr True, file4)))))"

section \<open>Table metadata (\<^verbatim>\<open>TableExtractorImpl._generate_tables_metadata\<close>)\<close>

text \<open>
  The Python values a table object's attributes hold, as far as the code looks at them:
  \<^verbatim>\<open>None\<close>, integers, strings, lists and dictionaries.
\<close>

datatype pyval =
    PyNone
  | PyInt int
  | PyStr string
  | PyList "pyval list"
  | PyDict "(pyval \<times> pyval) list"

text \<open>\<^verbatim>\<open>len(v)\<close>, \<^verbatim>\<open>bool(v)\<close> and \<^verbatim>\<open>v[0]\<close>.\<close>

fun py_len :: "pyval \<Rightarrow> error + nat" where
  "py_len PyNone = Inl (PyException ''object of type 'NoneType' has no len()'')"
| "py_len (PyInt n) = Inl (PyException ''object of type 'int' has no len()'')"
| "py_len (PyStr s) = Inr (length s)"
| "py_len (PyList xs) = Inr (length xs)"
| "py_len (PyDict kvs) = Inr (length kvs)"

fun py_truth :: "pyval \<Rightarrow> bool" where
  "py_truth PyNone = False"
| "py_truth (PyInt n) = (n \<noteq> 0)"
| "py_truth (PyStr s) = (s \<noteq> [])"
| "py_truth (PyList xs) = (xs \<noteq> [])"
| "py_truth (PyDict kvs) = (kvs \<noteq> [])"

fun py_item0 :: "pyval \<Rightarrow> error + pyval" where
  "py_item0 PyNone = Inl (PyException '''NoneType' object is not subscriptable'')"
| "py_item0 (PyInt n) = Inl (PyException '''int' object is not subscriptable'')"
| "py_item0 (PyStr []) = Inl (PyException ''string index out of range'')"
| "py_item0 (PyStr (c # s)) = Inr (PyStr [c])"
| "py_item0 (PyList []) = Inl (PyException ''list index out of range'')"
| "py_item0 (PyList (x # xs)) = Inr x"
| "py_item0 (PyDict kvs) =
     (case map_of kvs (PyInt 0) of None \<Rightarrow> Inl (PyException ''0'') | Some v \<Rightarrow> Inr v)"

text \<open>
  Reading an attribute of an object: it is missing (AttributeError), reading it raises
  another exception, or it has a value. A table object is what reading its four
  attributes gives.
\<close>

datatype attr = Missing | Raises string | Val pyval

record table =
  page :: attr
  bbox :: attr
  confidence :: attr
  content :: attr

text \<open>\<^verbatim>\<open>getattr(table, name, default)\<close>, \<^verbatim>\<open>hasattr(table, name)\<close> and
  \<^verbatim>\<open>table.content\<close>.\<close>

fun getattr_default :: "attr \<Rightarrow> pyval \<Rightarrow> error + pyval" where
  "getattr_default Missing d = Inr d"
| "getattr_default (Raises m) d = Inl (PyException m)"
| "getattr_default (Val v) d = Inr v"

fun hasattr :: "attr \<Rightarrow> error + bool" where
  "hasattr Missing = Inr False"
| "hasattr (Raises m) = Inl (PyException m)"
| "hasattr (Val v) = Inr True"

fun getattr :: "string \<Rightarrow> attr \<Rightarrow> error + pyval" where
  "getattr name Missing = Inl (PyException (''object has no attribute '' @ [CHR 0x27] @ name @ [CHR 0x27]))"
| "getattr name (Raises m) = Inl (PyException m)"
| "getattr name (Val v) = Inr v"

text \<open>A metadata dictionary, its keys in the order the code writes them.\<close>

type_synonym metadata = "(string \<times> pyval) list"

text \<open>\<^verbatim>\<open>len(table.content) if hasattr(table, 'content') else 0\<close>\<close>

definition table_rows :: "table \<Rightarrow> error + nat" where
  "table_rows t =
     (case hasattr (content t) of
        Inl e \<Rightarrow> Inl e
      | Inr has \<Rightarrow>
          if has then (case getattr ''content'' (content t) of
                         Inl e \<Rightarrow> Inl e
                       | Inr c \<Rightarrow> py_len c)
          else Inr 0)"

text \<open>\<^verbatim>\<open>len(table.content[0]) if (hasattr(table, 'content') and table.content) else 0\<close>\<close>

definition table_columns :: "table \<Rightarrow> error + nat" where
  "table_columns t =
     (case hasattr (content t) of
        Inl e \<Rightarrow> Inl e
      | Inr has \<Rightarrow>
          if has then
            (case getattr ''content'' (content t) of
               Inl e \<Rightarrow> Inl e
             | Inr c \<Rightarrow>
                 if py_truth c then
                   (case py_item0 c of
                      Inl e \<Rightarrow> Inl e
                    | Inr row \<Rightarrow> py_len row)
                 else Inr 0)
          else Inr 0)"

text \<open>The dictionary display of the \<^verbatim>\<open>try\<close> body, its entries evaluated in order.\<close>

definition table_info :: "nat \<Rightarrow> table \<Rightarrow> error + metadata" where
  "table_info i t =
     (case getattr_default (page t) (PyStr ''Unknown'') of
        Inl e \<Rightarrow> Inl e
      | Inr page_number \<Rightarrow>
     (case getattr_default (bbox t) PyNone of
        Inl e \<Rightarrow> Inl e
      | Inr box \<Rightarrow>
     (case getattr_default (confidence t) PyNone of
        Inl e \<Rightarrow> Inl e
      | Inr cf \<Rightarrow>
     (case table_rows t of
        Inl e \<Rightarrow> Inl e
      | Inr rows \<Rightarrow>
     (case table_columns t of
        Inl e \<Rightarrow> Inl e
      | Inr columns \<Rightarrow>
          Inr [(''table_id'', PyInt (int i + 1)),
               (''page_number'', page_number),
               (''bbox'', box),
               (''confidence'', cf),
               (''rows'', PyInt (int rows)),
               (''columns'', PyInt (int columns))])))))"

text \<open>The entry the handler appends when the body raised.\<close>

definition error_entry :: "nat \<Rightarrow> error \<Rightarrow> metadata" where
  "error_entry i e =
     [(''table_id'', PyInt (int i + 1)),
      (''page_number'', PyStr ''Unknown''),
      (''error'', PyStr (str_error e))]"

text \<open>The loop \<^verbatim>\<open>for i, table in enumerate(extracted_tables)\<close>.\<close>

fun metadata_loop :: "nat \<Rightarrow> table list \<Rightarrow> metadata list \<Rightarrow> metadata list" where
  "metadata_loop i [] metadata = metadata"
| "metadata_loop i (t # rest) metadata =
     (case table_info i t of
        Inr info \<Rightarrow> metadata_loop (Suc i) rest (metadata @ [info])
      | Inl e \<Rightarrow> metadata_loop (Suc i) rest (metadata @ [error_entry i e]))"

definition generate_tables_metadata :: "table list \<Rightarrow> int list \<Rightarrow> metadata list" where
  "generate_tables_metadata extracted_tables pages = metadata_loop 0 extracted_tables []"

section \<open>Table extraction (\<^verbatim>\<open>TableExtractorImpl.extract_tables\<close>)\<close>

text \<open>
  The table-detection library is a parameter, one field per call the code makes, each
  giving the message of the exception raised or the result:
  \<^verbatim>\<open>PaddleOCR(lang=ocr_language, kw=...)\<close>,
  \<^verbatim>\<open>PDF(str(file_path), pages=zero_indexed_pages, ...)\<close>,
  \<^verbatim>\<open>doc.extract_tables(ocr=paddle_ocr, ..., min_confidence=...)\<close> (a list of table
  objects, as the code's annotations have it),
  \<^verbatim>\<open>tempfile.NamedTemporaryFile(suffix=".xlsx", delete=False)\<close> (the file's name) and
  \<^verbatim>\<open>doc.to_xlsx(excel_file_path, ocr=paddle_ocr, ..., min_confidence=...)\<close>.
\<close>

record ('ocr, 'doc) table_engine =
  paddle_ocr :: "string \<Rightarrow> string + 'ocr"
  pdf_document :: "string \<Rightarrow> int list option \<Rightarrow> string + 'doc"
  doc_extract_tables :: "'doc \<Rightarrow> 'ocr \<Rightarrow> int \<Rightarrow> string + table list"
  named_temporary_file :: "string + string"
  doc_to_xlsx :: "'doc \<Rightarrow> string \<Rightarrow> 'ocr \<Rightarrow> int \<Rightarrow> string + unit"

definition extract_tables ::
    "('ocr, 'doc) table_engine \<Rightarrow> int \<Rightarrow> pdf_file \<Rightarrow> int list option \<Rightarrow> string
     \<Rightarrow> error + string \<times> metadata list" where
  "extract_tables engine confidence_threshold f pages language =
     (case
        (case validate_file f of
           Inl e \<Rightarrow> Inl e
         | Inr b \<Rightarrow>
        (case get_page_count f of
           Inl e \<Rightarrow> Inl e
         | Inr total_pages \<Rightarrow>
        (case resolve_pages total_pages pages of
           Inl e \<Rightarrow> Inl e
         | Inr pages_to_process \<Rightarrow>
        (let ocr_language = convert_language_code language
         in case paddle_ocr engine ocr_language of
           Inl m \<Rightarrow> Inl (PyException m)
         | Inr paddle \<Rightarrow>
        (let zero_indexed_pages =
               (if pages_to_process \<noteq> [] then Some (map (\<lambda>p. p - 1) pages_to_process)
                else None)
         in case pdf_document engine (path f) zero_indexed_pages of
           Inl m \<Rightarrow> Inl (PyException m)
         | Inr doc \<Rightarrow>
        (case doc_extract_tables engine doc paddle confidence_threshold of
           Inl m \<Rightarrow> Inl (PyException m)
         | Inr extracted_tables \<Rightarrow>
        (case named_temporary_file engine of
           Inl m \<Rightarrow> Inl (PyException m)
         | Inr excel_file_path \<Rightarrow>
        (case doc_to_xlsx engine doc excel_file_path paddle confidence_threshold of
           Inl m \<Rightarrow> Inl (PyException m)
         | Inr u \<Rightarrow>
             Inr (excel_file_path,
                  generate_tables_metadata extracted_tables pages_to_process)))))))))
      of Inl e \<Rightarrow> if is_read_or_validation_error e then Inl e
                  else Inl (ConversionError (''Table extraction failed: '' @ str_error e))
       | Inr r \<Rightarrow> Inr r)"

section \<open>Outcomes of one loop iteration\<close>

text \<open>
  The text the loop of \<^verbatim>\<open>extract_text\<close> records for the image at an index (the pair
  of \<^verbatim>\<open>enumerate\<close>): the filtered text, or the empty string when the body raised.
\<close>

definition page_text ::
    "'img ocr_engine \<Rightarrow> int \<Rightarrow> int list \<Rightarrow> string \<Rightarrow> nat \<times> 'img \<Rightarrow> string" where
  "page_text image_to_data thr ps language p =
     (case recognize_page image_to_data thr ps language (fst p) (snd p) of
        Inl e \<Rightarrow> []
      | Inr t \<Rightarrow> t)"

text \<open>
  The entry the loop of \<^verbatim>\<open>_generate_tables_metadata\<close> records for the table at an
  index, and the keys of an entry whose \<^verbatim>\<open>try\<close> body did not raise.
\<close>

definition metadata_entry :: "nat \<Rightarrow> table \<Rightarrow> metadata" where
  "metadata_entry i t =
     (case table_info i t of
        Inl e \<Rightarrow> error_entry i e
      | Inr info \<Rightarrow> info)"

definition metadata_keys :: "string list" where
  "metadata_keys =
     [''table_id'', ''page_number'', ''bbox'', ''confidence'', ''rows'', ''columns'']"

section \<open>Sample inputs\<close>

text \<open>
  A readable PDF of \<open>n\<close> pages; a renderer that gives one image per page of the range
  it is asked for (an image is its page number); an OCR engine that fails on page 2 and
  reads one confident word on every other page; two detected tables, the second with
  a \<^verbatim>\<open>content\<close> attribute that raises; a table-detection library that finds
  these two tables in any document.
\<close>

definition sample_pdf :: "nat \<Rightarrow> pdf_file" where
  "sample_pdf n =
     \<lparr>path = ''sample.pdf'', file_exists = True, file_suffix = ''.pdf'',
      reader_pages = Inr n, read_bytes = Inr ''%PDF-1.4''\<rparr>"

definition sample_renderer :: "nat renderer" where
  "sample_renderer pdf_bytes first_page last_page = Inr (map nat [first_page..last_page])"

definition sample_ocr :: "nat ocr_engine" where
  "sample_ocr img lang cfg =
     (if img = 2 then Inl ''recognition failed''
      else Inr \<lparr>td_text = [''page''], td_conf = [Inr 90]\<rparr>)"

definition sample_tables :: "table list" where
  "sample_tables =
     [\<lparr>page = Val (PyInt 1), bbox = Val (PyList [PyInt 10, PyInt 20, PyInt 300, PyInt 400]),
       confidence = Val (PyInt 87),
       content = Val (PyDict [(PyInt 0, PyList [PyStr ''a'', PyStr ''b'']),
                              (PyInt 1, PyList [PyStr ''c'', PyStr ''d''])])\<rparr>,
      \<lparr>page = Val (PyInt 2), bbox = Missing, confidence = Missing,
       content = Raises ''table content unavailable''\<rparr>]"

definition sample_engine :: "(string, string \<times> int list option) table_engine" where
  "sample_engine =
     \<lparr>paddle_ocr = (\<lambda>lang. Inr lang),
      pdf_document = (\<lambda>p pages. Inr (p, pages)),
      doc_extract_tables = (\<lambda>doc ocr thr. Inr sample_tables),
      named_temporary_file = Inr ''/tmp/tables.xlsx'',
      doc_to_xlsx = (\<lambda>doc p ocr thr. Inr ())\<rparr>"

section \<open>Properties of confidence filtering\<close>

lemma filter_loop_pairs:
  "filter_loop t (pre @ map (\<lambda>p. Inr (snd p)) ws) (length pre) (map fst ws) acc
     = Inr (acc @ retained t ws)"
proof (induction ws arbitrary: pre acc)
  case Nil
  show ?case by (simp add: retained_def)
next
  case (Cons p ws)
  have step: "filter_loop t ((pre @ [Inr (snd p)]) @ map (\<lambda>p. Inr (snd p)) ws)
      (length (pre @ [Inr (snd p)])) (map fst ws) acc' = Inr (acc' @ retained t ws)" for acc'
    by (rule Cons.IH)
  show ?case
    using step [of "acc @ [fst p]"] step [of acc]
    by (simp add: retained_def nth_append)
qed

text \<open>
  C2. For every sequence of (word, confidence) pairs and every threshold, the page text
  the code builds is the words with confidence at least the threshold (inclusive) and a
  non-empty trimmed text, in their original order, joined by single spaces. At the
  words (Hello, 85), (World, 90), (x, 10) and threshold 50 it is ``Hello World''.
\<close>

theorem filter_text_by_confidence_spec:
  "filter_text_by_confidence t (text_data_of ws) = Inr (spec_page_text t ws)"
  using filter_loop_pairs [of t "[]" ws "[]"]
  by (simp add: filter_text_by_confidence_def filtered_words_def text_data_of_def
      spec_page_text_def)

theorem filter_text_by_confidence_hello_world:
  "filter_text_by_confidence 50
     (text_data_of [(''Hello'', 85), (''World'', 90), (''x'', 10)]) = Inr ''Hello World''"
  using filter_text_by_confidence_spec [of 50 "[(''Hello'', 85), (''World'', 90), (''x'', 10)]"]
  by (simp add: spec_page_text_def retained_def py_strip_def py_isspace_def)

text \<open>
  The loop at two thresholds, side by side: whatever the run at the higher threshold has
  kept so far is a subsequence of what the run at the lower threshold has kept.
\<close>

lemma filter_loop_mono:
  "t1 \<le> t2 \<Longrightarrow> subseq acc2 acc1 \<Longrightarrow> filter_loop t2 cs i ws acc2 = Inr r2
     \<Longrightarrow> \<exists>r1. filter_loop t1 cs i ws acc1 = Inr r1 \<and> subseq r2 r1"
proof (induction ws arbitrary: i acc1 acc2)
  case Nil
  then show ?case by simp
next
  case (Cons w ws)
  from Cons.prems(3) have inb: "i < length cs"
    by (simp split: if_splits)
  with Cons.prems(3) obtain c where c: "cs ! i = Inr c"
    by (cases "cs ! i") simp_all
  have same: "subseq (acc2 @ [w]) (acc1 @ [w])"
    using Cons.prems(2) by (simp add: list_emb_append_mono)
  have skip: "subseq acc2 (acc1 @ [w])"
    using Cons.prems(2) by (rule subseq_rev_drop_many)
  show ?case
  proof (cases "c \<ge> t2 \<and> py_strip w \<noteq> []")
    case True
    with Cons.prems(1) have k1: "c \<ge> t1 \<and> py_strip w \<noteq> []" by simp
    from True Cons.prems(3) inb c
    have "filter_loop t2 cs (Suc i) ws (acc2 @ [w]) = Inr r2" by simp
    from Cons.IH [OF Cons.prems(1) same this] show ?thesis
      using inb c k1 by simp
  next
    case False
    with Cons.prems(3) inb c
    have r: "filter_loop t2 cs (Suc i) ws acc2 = Inr r2" by auto
    show ?thesis
    proof (cases "c \<ge> t1 \<and> py_strip w \<noteq> []")
      case True
      from Cons.IH [OF Cons.prems(1) skip r] show ?thesis
        using inb c True by simp
    next
      case False
      from Cons.IH [OF Cons.prems(1) Cons.prems(2) r] show ?thesis
        using inb c False by auto
    qed
  qed
qed

text \<open>
  C8. Confidence filtering is monotone in the threshold: for a fixed OCR output and
  thresholds \<open>t1 \<le> t2\<close>, the words kept at \<open>t2\<close> are kept at \<open>t1\<close> as well (as a
  subsequence, hence as a set). Raising the threshold never adds a word.
\<close>

theorem confidence_filter_monotone:
  "t1 \<le> t2 \<Longrightarrow> filtered_words t2 td = Inr ws2
     \<Longrightarrow> \<exists>ws1. filtered_words t1 td = Inr ws1 \<and> subseq ws2 ws1 \<and> set ws2 \<subseteq> set ws1"
  using filter_loop_mono [of t1 t2 "[]" "[]" "td_conf td" 0 "td_text td" ws2]
  by (auto simp: filtered_words_def dest: subseq_order.order_trans list_emb_set)

theorem confidence_filter_monotone_witness:
  "filtered_words 88 (text_data_of [(''Hello'', 85), (''World'', 90), (''x'', 10)])
     = Inr [''World'']
   \<and> (\<exists>ws1. filtered_words 50 (text_data_of [(''Hello'', 85), (''World'', 90), (''x'', 10)])
           = Inr ws1
         \<and> subseq [''World''] ws1 \<and> set [''World''] \<subseteq> set ws1)"
proof -
  let ?td = "text_data_of [(''Hello'', 85), (''World'', 90), (''x'', 10)]"
  have le: "(50::int) \<le> 88" by simp
  have high: "filtered_words 88 ?td = Inr [''World'']"
    by (simp add: filtered_words_def text_data_of_def py_strip_def py_isspace_def)
  from confidence_filter_monotone [OF le high] high show ?thesis by simp
qed

section \<open>Properties of page-range resolution\<close>

lemma sublist_py_join: "x \<in> set xs \<Longrightarrow> sublist x (py_join sep xs)"
proof (induction sep xs rule: py_join.induct)
  case (1 sep)
  then show ?case by simp
next
  case (2 sep y)
  then show ?case by simp
next
  case (3 sep y z zs)
  show ?case
  proof (cases "x = y")
    case True
    then show ?thesis by (simp add: sublist_append_rightI)
  next
    case False
    with "3.prems" have "x \<in> set (z # zs)" by simp
    then have "sublist x (py_join sep (z # zs))" by (rule "3.IH")
    then have "sublist x (y @ sep @ py_join sep (z # zs))" by (simp add: sublist_append)
    then show ?thesis by simp
  qed
qed

lemma sublist_repr_int_list: "p \<in> set xs \<Longrightarrow> sublist (str_int p) (repr_int_list xs)"
proof -
  assume "p \<in> set xs"
  then have "str_int p \<in> set (map str_int xs)" by simp
  then have "sublist (str_int p) (py_join '', '' (map str_int xs))" by (rule sublist_py_join)
  then have "sublist (str_int p) (''['' @ py_join '', '' (map str_int xs) @ '']'')"
    by (simp only: sublist_append) simp
  then show ?thesis by (simp only: repr_int_list_def)
qed

lemma validate_then_count:
  "validate_file f = Inr True
     \<Longrightarrow> \<exists>n. reader_pages f = Inr n \<and> 0 < n \<and> get_page_count f = Inr (int n)"
  by (auto simp: validate_file_def get_page_count_def split: if_splits sum.splits)

lemma sample_pdf_valid: "0 < n \<Longrightarrow> validate_file (sample_pdf n) = Inr True"
  by (simp add: validate_file_def sample_pdf_def py_lower_char_def)

lemma sample_pdf_count: "0 < n \<Longrightarrow> get_page_count (sample_pdf n) = Inr (int n)"
  by (simp add: get_page_count_def sample_pdf_valid) (simp add: sample_pdf_def)

text \<open>
  C3. For every page count and every selection with at least one entry outside
  \<open>[1, total_pages]\<close>, page-range resolution fails with a validation error, which
  \<^verbatim>\<open>extract_text\<close> and \<^verbatim>\<open>extract_tables\<close> pass on unchanged; its message is the prefix
  ``Invalid page numbers: '' and the list of all entries out of range, in their order, so
  the decimal text of every one of them stands in the message. With 3 pages and the
  selection [5, 0] the message names 5 and 0.
\<close>

theorem invalid_pages_all_named:
  assumes bad: "\<exists>p\<in>set ps. p < 1 \<or> p > total_pages"
    and msg: "msg = ''Invalid page numbers: ''
        @ repr_int_list (filter (\<lambda>p. p < 1 \<or> p > total_pages) ps)"
    and ok: "validate_file f = Inr True"
    and count: "get_page_count f = Inr total_pages"
  shows "resolve_pages total_pages (Some ps) = Inl (ValidationError msg)
    \<and> extract_text convert_from_bytes image_to_data thr f (Some ps) language
        = Inl (ValidationError msg)
    \<and> extract_tables engine thr f (Some ps) language = Inl (ValidationError msg)
    \<and> (\<forall>p\<in>set ps. p < 1 \<or> p > total_pages \<longrightarrow> sublist (str_int p) msg)"
proof -
  from bad have ne: "filter (\<lambda>p. p < 1 \<or> p > total_pages) ps \<noteq> []"
    by (auto simp: filter_empty_conv)
  then have res: "resolve_pages total_pages (Some ps) = Inl (ValidationError msg)"
    by (simp add: resolve_pages_def msg)
  have ext: "extract_text convert_from_bytes image_to_data thr f (Some ps) language
        = Inl (ValidationError msg)"
    by (simp add: extract_text_def ok count res)
  have tab: "extract_tables engine thr f (Some ps) language = Inl (ValidationError msg)"
    by (simp add: extract_tables_def ok count res)
  have named: "sublist (str_int p) msg" if "p \<in> set ps" "p < 1 \<or> p > total_pages" for p
  proof -
    from that have "p \<in> set (filter (\<lambda>p. p < 1 \<or> p > total_pages) ps)" by simp
    then have "sublist (str_int p)
        (repr_int_list (filter (\<lambda>p. p < 1 \<or> p > total_pages) ps))"
      by (rule sublist_repr_int_list)
    then show ?thesis unfolding msg by (simp only: sublist_append) simp
  qed
  from res ext tab named show ?thesis by blast
qed

theorem invalid_pages_all_named_witness:
  "resolve_pages 3 (Some [5, 0]) = Inl (ValidationError ''Invalid page numbers: [5, 0]'')
   \<and> extract_text sample_renderer sample_ocr 50 (sample_pdf 3) (Some [5, 0]) ''eng''
      = Inl (ValidationError ''Invalid page numbers: [5, 0]'')
   \<and> extract_tables sample_engine 50 (sample_pdf 3) (Some [5, 0]) ''eng''
      = Inl (ValidationError ''Invalid page numbers: [5, 0]'')
   \<and> sublist (str_int 5) ''Invalid page numbers: [5, 0]''
   \<and> sublist (str_int 0) ''Invalid page numbers: [5, 0]''"
proof -
  have bad: "\<exists>p\<in>set [5, 0]. p < 1 \<or> p > (3::int)" by simp
  have msg: "''Invalid page numbers: [5, 0]''
      = ''Invalid page numbers: '' @ repr_int_list (filter (\<lambda>p. p < 1 \<or> p > 3) [5, 0])"
    by (simp add: repr_int_list_def str_int_def str_nat.simps digit_char_def)
  have ok: "validate_file (sample_pdf 3) = Inr True" by (simp add: sample_pdf_valid)
  have count: "get_page_count (sample_pdf 3) = Inr 3"
    using sample_pdf_count [of 3] by simp
  show ?thesis
    using invalid_pages_all_named [OF bad msg ok count,
        of sample_renderer sample_ocr 50 "''eng''" sample_engine]
    by simp
qed

text \<open>
  C7. For every selection whose entries all lie in \<open>[1, total_pages]\<close>, page-range
  resolution returns the selection sorted ascending, with the same entries as many times
  each: nothing is added, dropped or deduplicated.
\<close>

theorem valid_selection_sorted:
  assumes "\<forall>p\<in>set S. 1 \<le> p \<and> p \<le> total_pages"
  shows "\<exists>R. resolve_pages total_pages (Some S) = Inr R \<and> R = sort S \<and> sorted R
    \<and> mset R = mset S \<and> length R = length S"
proof -
  from assms have "filter (\<lambda>p. p < 1 \<or> p > total_pages) S = []"
    by (auto simp: filter_empty_conv)
  then show ?thesis by (simp add: resolve_pages_def)
qed

theorem valid_selection_sorted_witness:
  "resolve_pages 5 (Some [3, 1, 3, 2]) = Inr [1, 2, 3, 3]"
proof -
  have "\<forall>p\<in>set [3, 1, 3, 2]. 1 \<le> p \<and> p \<le> (5::int)" by simp
  from valid_selection_sorted [OF this] show ?thesis by simp
qed

section \<open>Properties of rendering and text extraction\<close>

lemma py_min_Min:
  assumes "xs \<noteq> []"
  shows "py_min xs = Inr (Min (set xs))"
proof (cases xs)
  case Nil
  with assms show ?thesis by simp
next
  case (Cons a list)
  then show ?thesis using Min.set_eq_fold [of a list] by simp
qed

lemma py_max_Max:
  assumes "xs \<noteq> []"
  shows "py_max xs = Inr (Max (set xs))"
proof (cases xs)
  case Nil
  with assms show ?thesis by simp
next
  case (Cons a list)
  then show ?thesis using Max.set_eq_fold [of a list] by simp
qed

lemma Min_Max_upto: "1 \<le> (n::int) \<Longrightarrow> Min (set [1..n]) = 1 \<and> Max (set [1..n]) = n"
  by (auto intro!: Min_eqI Max_eqI)

text \<open>Several pages that fill their range are rendered by one call, and nothing is filtered.\<close>

lemma convert_contiguous:
  assumes rd: "read_bytes f = Inr pdf_bytes"
    and many: "length ps \<noteq> 1" and ne: "ps \<noteq> []"
    and contiguous: "set ps = {Min (set ps)..Max (set ps)}"
    and render: "convert_from_bytes pdf_bytes (Min (set ps)) (Max (set ps)) = Inr images"
  shows "convert_pdf_to_images convert_from_bytes f ps = Inr images"
  using contiguous many
  by (simp add: convert_pdf_to_images_def rd py_min_Min [OF ne] py_max_Max [OF ne] render)

lemma convert_empty_min:
  "read_bytes f = Inr b \<Longrightarrow> convert_pdf_to_images convert_from_bytes f []
     = Inl (OCRError ''Failed to convert PDF to images: min() arg is an empty sequence'')"
  by (simp add: convert_pdf_to_images_def)

lemma convert_ok_nonempty:
  "convert_pdf_to_images convert_from_bytes f ps = Inr images \<Longrightarrow> ps \<noteq> []"
  by (auto simp: convert_pdf_to_images_def split: sum.splits)

text \<open>With a page list that is not empty, the loop never fails: one text per image.\<close>

lemma ocr_loop_map:
  "ps \<noteq> [] \<Longrightarrow> ocr_loop image_to_data thr ps language i images acc
     = Inr (acc @ map (page_text image_to_data thr ps language) (enumerate i images))"
proof (induction images arbitrary: i acc)
  case Nil
  show ?case by simp
next
  case (Cons img images)
  show ?case
    using Cons.prems Cons.IH [OF Cons.prems]
    by (simp add: page_text_def split: sum.splits)
qed

lemma recognize_page_ocr_error:
  "image_to_data img language (''--oem 3 --psm 6 -l '' @ language) = Inl m
     \<Longrightarrow> \<exists>e. recognize_page image_to_data thr ps language i img = Inl e"
  by (simp add: recognize_page_def)

text \<open>
  C1. The claim: on a readable PDF, an absent or empty selection resolves to every page
  and one string per page comes back. For the empty list the code does otherwise: the
  selection resolves to the empty list, rendering takes \<^verbatim>\<open>min\<close> of it, and the
  request fails with an OCR error. This theorem is that failure, for every readable PDF
  whose bytes can be read.
\<close>

theorem empty_selection_fails:
  assumes ok: "validate_file f = Inr True" and rd: "read_bytes f = Inr pdf_bytes"
  shows "extract_text convert_from_bytes image_to_data thr f (Some []) language
     = Inl (OCRError
         ''OCR processing failed: Failed to convert PDF to images: min() arg is an empty sequence'')"
proof -
  from validate_then_count [OF ok] obtain n where n: "get_page_count f = Inr (int n)" by blast
  have res: "resolve_pages (int n) (Some []) = Inr []"
    by (simp add: resolve_pages_def)
  show ?thesis
    by (simp add: extract_text_def ok n res convert_empty_min [OF rd])
qed

theorem empty_selection_fails_witness:
  "extract_text sample_renderer sample_ocr 50 (sample_pdf 3) (Some []) ''eng''
   = Inl (OCRError
       ''OCR processing failed: Failed to convert PDF to images: min() arg is an empty sequence'')"
proof -
  have ok: "validate_file (sample_pdf 3) = Inr True" by (simp add: sample_pdf_valid)
  have rd: "read_bytes (sample_pdf 3) = Inr ''%PDF-1.4''" by (simp add: sample_pdf_def)
  show ?thesis by (rule empty_selection_fails [OF ok rd])
qed

text \<open>
  The absent selection does resolve to every page: with a renderer that answers the
  call for pages 1 to \<open>total_pages\<close>, one text per image comes back.
\<close>

lemma absent_selection_all_pages:
  assumes ok: "validate_file f = Inr True"
    and count: "get_page_count f = Inr total_pages"
    and rd: "read_bytes f = Inr pdf_bytes"
    and render: "convert_from_bytes pdf_bytes 1 total_pages = Inr images"
  shows "resolve_pages total_pages None = Inr [1..total_pages]
    \<and> (\<exists>texts. extract_text convert_from_bytes image_to_data thr f None language = Inr texts
          \<and> length texts = length images)"
proof -
  from validate_then_count [OF ok] count have pos: "1 \<le> total_pages" by auto
  have res: "resolve_pages total_pages None = Inr [1..total_pages]"
    by (simp add: resolve_pages_def)
  from pos have ne: "[1..total_pages] \<noteq> []" by (simp add: upto_rec1)
  have conv: "convert_pdf_to_images convert_from_bytes f [1..total_pages] = Inr images"
  proof (cases "length [1..total_pages] = 1")
    case True
    with pos have "total_pages = 1" by simp
    with render show ?thesis
      by (simp add: convert_pdf_to_images_def rd)
  next
    case False
    with pos render Min_Max_upto [OF pos] show ?thesis
      by (intro convert_contiguous [OF rd _ ne]) simp_all
  qed
  from res show ?thesis
    by (simp add: extract_text_def ok count conv ocr_loop_map [OF ne])
qed

text \<open>
  C6. In a text-extraction run whose pages were resolved and rendered, the request
  succeeds with one text per image whatever the OCR engine does: the text at an index is
  the filtered text of that image, or the empty string when the loop body raised there;
  in particular it is the empty string wherever the OCR engine raised, and the pages
  after it are processed all the same.
\<close>

theorem ocr_failure_isolated:
  assumes ok: "validate_file f = Inr True"
    and count: "get_page_count f = Inr total_pages"
    and res: "resolve_pages total_pages pages = Inr ps"
    and conv: "convert_pdf_to_images convert_from_bytes f ps = Inr images"
  shows "\<exists>texts. extract_text convert_from_bytes image_to_data thr f pages language = Inr texts
    \<and> length texts = length images
    \<and> texts = map (page_text image_to_data thr ps language) (enumerate 0 images)
    \<and> (\<forall>i<length images.
          (\<exists>m. image_to_data (images ! i) language (''--oem 3 --psm 6 -l '' @ language) = Inl m)
          \<longrightarrow> texts ! i = [])"
proof -
  let ?texts = "map (page_text image_to_data thr ps language) (enumerate 0 images)"
  from conv have ne: "ps \<noteq> []" by (rule convert_ok_nonempty)
  have run: "extract_text convert_from_bytes image_to_data thr f pages language = Inr ?texts"
    by (simp add: extract_text_def ok count res conv ocr_loop_map [OF ne])
  have empty: "?texts ! i = []"
    if i: "i < length images"
      and m: "image_to_data (images ! i) language (''--oem 3 --psm 6 -l '' @ language) = Inl m"
    for i m
  proof -
    from recognize_page_ocr_error [of image_to_data "images ! i" language m thr ps i] m
    obtain e where "recognize_page image_to_data thr ps language i (images ! i) = Inl e"
      by blast
    with i show ?thesis by (simp add: page_text_def nth_enumerate_eq)
  qed
  from run empty show ?thesis by auto
qed

theorem ocr_failure_isolated_witness:
  "sample_ocr 2 ''eng'' (''--oem 3 --psm 6 -l '' @ ''eng'') = Inl ''recognition failed''
   \<and> extract_text sample_renderer sample_ocr 50 (sample_pdf 3) None ''eng''
       = Inr [''page'', [], ''page'']"
proof -
  have ok: "validate_file (sample_pdf 3) = Inr True" by (simp add: sample_pdf_valid)
  have count: "get_page_count (sample_pdf 3) = Inr 3"
    using sample_pdf_count [of 3] by simp
  have res: "resolve_pages 3 None = Inr [1, 2, 3]"
    by (simp add: resolve_pages_def upto_rec1)
  have conv: "convert_pdf_to_images sample_renderer (sample_pdf 3) [1, 2, 3] = Inr [1, 2, 3]"
    by (simp add: convert_pdf_to_images_def sample_pdf_def sample_renderer_def upto_rec1)
  have fails: "sample_ocr 2 ''eng'' (''--oem 3 --psm 6 -l '' @ ''eng'')
      = Inl ''recognition failed''"
    by (simp add: sample_ocr_def)
  have pages: "map (page_text sample_ocr 50 [1, 2, 3] ''eng'') (enumerate 0 [1, 2, 3])
      = [''page'', [], ''page'']"
    by (simp add: page_text_def recognize_page_def sample_ocr_def filter_text_by_confidence_def
        filtered_words_def py_strip_def py_isspace_def)
  from ocr_failure_isolated [where f = "sample_pdf 3" and total_pages = 3 and pages = None
      and ps = "[1, 2, 3]" and convert_from_bytes = sample_renderer and images = "[1, 2, 3]"
      and image_to_data = sample_ocr and thr = 50 and language = "''eng''",
      OF ok count res conv] pages fails
  show ?thesis by auto
qed

text \<open>
  C10. For a valid selection with a repeated page number whose distinct values fill a
  range, and a renderer that gives one image per page of the range it is asked for,
  \<^verbatim>\<open>extract_text\<close> returns one text per distinct page: fewer texts than selected
  entries. The selection [3, 3] on a 5-page document gives one text.
\<close>

theorem contiguous_duplicates_collapse:
  assumes ok: "validate_file f = Inr True"
    and count: "get_page_count f = Inr total_pages"
    and valid: "\<forall>p\<in>set ps. 1 \<le> p \<and> p \<le> total_pages"
    and dup: "\<not> distinct ps"
    and contiguous: "set ps = {Min (set ps)..Max (set ps)}"
    and rd: "read_bytes f = Inr pdf_bytes"
    and render: "convert_from_bytes pdf_bytes (Min (set ps)) (Max (set ps)) = Inr images"
    and one_each: "length images = card {Min (set ps)..Max (set ps)}"
  shows "\<exists>texts. extract_text convert_from_bytes image_to_data thr f (Some ps) language = Inr texts
    \<and> length texts = card (set ps) \<and> length texts < length ps"
proof -
  from valid have "filter (\<lambda>p. p < 1 \<or> p > total_pages) ps = []"
    by (auto simp: filter_empty_conv)
  then have res: "resolve_pages total_pages (Some ps) = Inr (sort ps)"
    by (simp add: resolve_pages_def)
  from dup have long: "2 \<le> length ps"
    by (cases ps rule: remdups_adj.cases) simp_all
  from long have ne: "sort ps \<noteq> []"
    by (metis length_sort list.size(3) not_numeral_le_zero)
  from long have many: "length (sort ps) \<noteq> 1" by simp
  have conv: "convert_pdf_to_images convert_from_bytes f (sort ps) = Inr images"
    using contiguous render by (intro convert_contiguous [OF rd many ne]) simp_all
  let ?texts = "map (page_text image_to_data thr (sort ps) language) (enumerate 0 images)"
  have run: "extract_text convert_from_bytes image_to_data thr f (Some ps) language = Inr ?texts"
    by (simp add: extract_text_def ok count res conv ocr_loop_map [OF ne])
  have len: "length ?texts = card (set ps)"
    using one_each contiguous by simp
  have "card (set ps) \<noteq> length ps"
    using dup card_distinct by blast
  with card_length [of ps] have "card (set ps) < length ps" by simp
  with run len show ?thesis by simp
qed

theorem contiguous_duplicates_collapse_witness:
  "\<exists>texts. extract_text sample_renderer sample_ocr 50 (sample_pdf 5) (Some [3, 3]) ''eng''
       = Inr texts
     \<and> length texts = 1 \<and> length texts < length [3, 3::int]"
proof -
  have ok: "validate_file (sample_pdf 5) = Inr True" by (simp add: sample_pdf_valid)
  have count: "get_page_count (sample_pdf 5) = Inr 5"
    using sample_pdf_count [of 5] by simp
  have valid: "\<forall>p\<in>set [3, 3]. 1 \<le> p \<and> p \<le> (5::int)" by simp
  have dup: "\<not> distinct [3, 3::int]" by simp
  have contiguous: "set [3, 3::int] = {Min (set [3, 3])..Max (set [3, 3])}" by simp
  have rd: "read_bytes (sample_pdf 5) = Inr ''%PDF-1.4''" by (simp add: sample_pdf_def)
  have render: "sample_renderer ''%PDF-1.4'' (Min (set [3, 3])) (Max (set [3, 3])) = Inr [3]"
    by (simp add: sample_renderer_def)
  have one_each: "length [3::nat] = card {Min (set [3, 3::int])..Max (set [3, 3])}" by simp
  from contiguous_duplicates_collapse [where f = "sample_pdf 5" and total_pages = 5
      and ps = "[3, 3]" and pdf_bytes = "''%PDF-1.4''" and convert_from_bytes = sample_renderer
      and images = "[3]" and image_to_data = sample_ocr and thr = 50 and language = "''eng''",
      OF ok count valid dup contiguous rd render one_each]
  show ?thesis by simp
qed

section \<open>Properties of language-code conversion\<close>

text \<open>
  C4, as the code has it. Every language code that is not a key of the lookup table
  converts to ``en'' (the conversion is a total function: nothing is raised). The code
  ``deu'' is a key of the table and converts to ``de''.
\<close>

theorem unknown_language_defaults:
  "(language \<notin> fst ` set language_mapping \<longrightarrow> convert_language_code language = ''en'')
   \<and> convert_language_code ''deu'' = ''de''"
proof -
  have a: "convert_language_code language = ''en''" if "language \<notin> fst ` set language_mapping"
  proof -
    from that have "map_of language_mapping language = None" by (simp add: map_of_eq_None_iff)
    then show ?thesis by (simp add: convert_language_code_def)
  qed
  have b: "convert_language_code ''deu'' = ''de''"
    by (simp add: convert_language_code_def language_mapping_def)
  from a b show ?thesis by blast
qed

theorem unknown_language_defaults_witness:
  "convert_language_code ''nld'' = ''en''"
proof -
  have "''nld'' \<notin> fst ` set language_mapping" by (simp add: language_mapping_def)
  with unknown_language_defaults [of "''nld''"] show ?thesis by blast
qed

text \<open>The claim as stated has ``deu'' fall back to ``en''; the code gives ``de''.\<close>

theorem deu_does_not_fall_back:
  "convert_language_code ''deu'' = ''de'' \<and> convert_language_code ''deu'' \<noteq> ''en''"
  by (simp add: convert_language_code_def language_mapping_def)

section \<open>Properties of the stream probes\<close>

text \<open>
  C5. For every stream (any bytes, any read position, open or closed),
  \<^verbatim>\<open>validate_file_type\<close> and \<^verbatim>\<open>validate_file_size\<close> leave the read position
  where it was, whether they accept or raise; the stream as a whole is unchanged.
\<close>

theorem probes_preserve_position:
  "pos (snd (validate_file_type file)) = pos file
   \<and> pos (snd (validate_file_size file max_size_mb)) = pos file
   \<and> snd (validate_file_type file) = file
   \<and> snd (validate_file_size file max_size_mb) = file"
  by (cases "closed file")
     (simp_all add: validate_file_type_def validate_file_size_def tell_def seek_set_def
        seek_end_def read_def Let_def)

theorem probes_preserve_position_witness:
  "validate_file_type \<lparr>buffer = ''%PDF-1.4 sample'', pos = 7, closed = False\<rparr>
     = (Inr True, \<lparr>buffer = ''%PDF-1.4 sample'', pos = 7, closed = False\<rparr>)
   \<and> validate_file_type \<lparr>buffer = ''This is not a PDF'', pos = 40, closed = False\<rparr>
     = (Inl (ValidationError ''File is not a valid PDF''),
        \<lparr>buffer = ''This is not a PDF'', pos = 40, closed = False\<rparr>)
   \<and> validate_file_size \<lparr>buffer = ''%PDF-1.4 sample'', pos = 7, closed = False\<rparr> 1
     = (Inr True, \<lparr>buffer = ''%PDF-1.4 sample'', pos = 7, closed = False\<rparr>)
   \<and> validate_file_size \<lparr>buffer = ''%PDF-1.4 sample'', pos = 7, closed = False\<rparr> 0
     = (Inl (ValidationError ''File size (0.00 MB) exceeds maximum allowed size (0 MB)''),
        \<lparr>buffer = ''%PDF-1.4 sample'', pos = 7, closed = False\<rparr>)"
proof -
  let ?a = "\<lparr>buffer = ''%PDF-1.4 sample'', pos = 7, closed = False\<rparr>"
  let ?b = "\<lparr>buffer = ''This is not a PDF'', pos = 40, closed = False\<rparr>"
  have r1: "fst (validate_file_type ?a) = Inr True"
    by (simp add: validate_file_type_def tell_def seek_set_def read_def)
  have r2: "fst (validate_file_type ?b) = Inl (ValidationError ''File is not a valid PDF'')"
    by (simp add: validate_file_type_def tell_def seek_set_def read_def reraise_validation_def)
  have r3: "fst (validate_file_size ?a 1) = Inr True"
    by (simp add: validate_file_size_def tell_def seek_set_def seek_end_def)
  have r4: "fst (validate_file_size ?a 0)
      = Inl (ValidationError ''File size (0.00 MB) exceeds maximum allowed size (0 MB)'')"
    by (simp add: validate_file_size_def tell_def seek_set_def seek_end_def
        reraise_validation_def format_mb_def str_int_def str_nat.simps digit_char_def)
  show ?thesis
    using r1 r2 r3 r4 probes_preserve_position [of ?a 1] probes_preserve_position [of ?b 0]
      probes_preserve_position [of ?a 0]
    by (simp add: prod_eq_iff)
qed

section \<open>Properties of table metadata\<close>

lemma metadata_loop_map:
  "metadata_loop i ts acc = acc @ map (\<lambda>p. metadata_entry (fst p) (snd p)) (enumerate i ts)"
  by (induction ts arbitrary: i acc) (simp_all add: metadata_entry_def split: sum.splits)

lemma table_info_keys:
  "table_info i t = Inr info \<Longrightarrow>
     map fst info = metadata_keys \<and> map_of info ''table_id'' = Some (PyInt (int i + 1))"
  by (auto simp: table_info_def metadata_keys_def split: sum.splits)

text \<open>
  C9. For \<open>N\<close> detected tables, metadata generation returns \<open>N\<close> entries in table
  order, the entry at index \<open>i\<close> with table id \<open>i + 1\<close>. Where reading a table's
  metadata raised, its entry is the error entry, with the table id and the field
  \<^verbatim>\<open>error\<close>; where it did not, the entry has all six fields; the loop goes on past a
  table that raised. With table 1 read and table 2 raising, there are two entries, the
  second with the error field, the first with all six fields.
\<close>

theorem metadata_per_table:
  "length (generate_tables_metadata ts pages) = length ts
   \<and> (\<forall>i<length ts.
        map_of (generate_tables_metadata ts pages ! i) ''table_id'' = Some (PyInt (int i + 1))
        \<and> (\<forall>e. table_info i (ts ! i) = Inl e \<longrightarrow>
               generate_tables_metadata ts pages ! i = error_entry i e
               \<and> map_of (generate_tables_metadata ts pages ! i) ''error''
                   = Some (PyStr (str_error e)))
        \<and> (\<forall>info. table_info i (ts ! i) = Inr info \<longrightarrow>
               generate_tables_metadata ts pages ! i = info
               \<and> map fst info = metadata_keys))"
proof (intro conjI allI impI)
  show "length (generate_tables_metadata ts pages) = length ts"
    by (simp add: generate_tables_metadata_def metadata_loop_map)
next
  fix i
  assume i: "i < length ts"
  then have nth: "generate_tables_metadata ts pages ! i = metadata_entry i (ts ! i)"
    by (simp add: generate_tables_metadata_def metadata_loop_map nth_enumerate_eq)
  show "map_of (generate_tables_metadata ts pages ! i) ''table_id'' = Some (PyInt (int i + 1))"
  proof (cases "table_info i (ts ! i)")
    case (Inl e)
    then show ?thesis by (simp add: nth metadata_entry_def error_entry_def)
  next
    case (Inr info)
    with table_info_keys [OF Inr] show ?thesis by (simp add: nth metadata_entry_def)
  qed
  {
    fix e
    assume e: "table_info i (ts ! i) = Inl e"
    then show "generate_tables_metadata ts pages ! i = error_entry i e"
      by (simp add: nth metadata_entry_def)
    from e show "map_of (generate_tables_metadata ts pages ! i) ''error''
        = Some (PyStr (str_error e))"
      by (simp add: nth metadata_entry_def error_entry_def)
  }
  {
    fix info
    assume info: "table_info i (ts ! i) = Inr info"
    then show "generate_tables_metadata ts pages ! i = info"
      by (simp add: nth metadata_entry_def)
    from table_info_keys [OF info] show "map fst info = metadata_keys" by simp
  }
qed

theorem metadata_per_table_witness:
  "generate_tables_metadata sample_tables [1, 2]
     = [[(''table_id'', PyInt 1), (''page_number'', PyInt 1),
         (''bbox'', PyList [PyInt 10, PyInt 20, PyInt 300, PyInt 400]),
         (''confidence'', PyInt 87), (''rows'', PyInt 2), (''columns'', PyInt 2)],
        [(''table_id'', PyInt 2), (''page_number'', PyStr ''Unknown''),
         (''error'', PyStr ''table content unavailable'')]]"
proof -
  let ?M = "generate_tables_metadata sample_tables [1, 2]"
  have i0: "table_info 0 (sample_tables ! 0)
      = Inr [(''table_id'', PyInt 1), (''page_number'', PyInt 1),
         (''bbox'', PyList [PyInt 10, PyInt 20, PyInt 300, PyInt 400]),
         (''confidence'', PyInt 87), (''rows'', PyInt 2), (''columns'', PyInt 2)]"
    by (simp add: sample_tables_def table_info_def table_rows_def table_columns_def)
  have i1: "table_info 1 (sample_tables ! 1) = Inl (PyException ''table content unavailable'')"
    by (simp add: sample_tables_def table_info_def table_rows_def table_columns_def)
  have len: "length sample_tables = 2" by (simp add: sample_tables_def)
  note per_table = metadata_per_table [of sample_tables "[1, 2]"]
  from per_table len have l: "length ?M = 2" by simp
  have lt0: "0 < length sample_tables" and lt1: "1 < length sample_tables"
    by (simp_all add: len)
  from per_table [THEN conjunct2, rule_format, OF lt0] i0
  have r0: "?M ! 0
      = [(''table_id'', PyInt 1), (''page_number'', PyInt 1),
         (''bbox'', PyList [PyInt 10, PyInt 20, PyInt 300, PyInt 400]),
         (''confidence'', PyInt 87), (''rows'', PyInt 2), (''columns'', PyInt 2)]"
    by simp
  from per_table [THEN conjunct2, rule_format, OF lt1] i1
  have r1: "?M ! 1
      = [(''table_id'', PyInt 2), (''page_number'', PyStr ''Unknown''),
         (''error'', PyStr ''table content unavailable'')]"
    by (simp add: error_entry_def)
  from l obtain a b where ab: "?M = [a, b]"
    by (cases ?M rule: remdups_adj.cases) simp_all
  with r0 r1 show ?thesis by simp
qed

end
